theory Spec2Isabelle
  imports Main
begin

section \<open>The sweep driver (sweep.py)\<close>

text \<open>
  The script runs an external benchmark over a grid of part sizes and connection counts,
  reads the peak throughput from the text the benchmark prints, and prints one row per
  trial. Strings are lists of 8-bit characters; Python integers are \<open>int\<close>.
  Exceptions are values: a class and the description that \<open>str(e)\<close> gives.
\<close>

subsection \<open>Exceptions\<close>

datatype exn_class =
  Exception | ValueError | TypeError | IndexError
  | CalledProcessError | OSError | UnicodeDecodeError

datatype exn = Exn exn_class string

fun exn_str :: "exn \<Rightarrow> string" where
  "exn_str (Exn cls msg) = msg"

fun exn_cls :: "exn \<Rightarrow> exn_class" where
  "exn_cls (Exn cls msg) = cls"

subsection \<open>Python's \<open>int(str)\<close>, \<open>str(int)\<close> and \<open>repr(str)\<close>\<close>

definition is_digit :: "char \<Rightarrow> bool" where
  "is_digit c = (c \<in> set ''0123456789'')"

definition digit_val :: "char \<Rightarrow> int" where
  "digit_val c = int (of_char c) - 48"

text \<open>
  The characters that \<open>int\<close> skips around a literal: tab, line feed, vertical tab,
  form feed, carriage return, space, and the two 8-bit Unicode spaces U+0085 and U+00A0.
\<close>

definition py_space :: "char \<Rightarrow> bool" where
  "py_space c = (c \<in> set [CHR 0x09, CHR 0x0A, CHR 0x0B, CHR 0x0C, CHR 0x0D, CHR 0x20,
                          CHR 0x85, CHR 0xA0])"

definition digit_or_underscore :: "char \<Rightarrow> bool" where
  "digit_or_underscore c = (is_digit c \<or> c = CHR ''_'')"

text \<open>Digits, with single underscores allowed between two digits only.\<close>

fun digits_ok :: "string \<Rightarrow> bool" where
  "digits_ok [] = False"
| "digits_ok [c] = is_digit c"
| "digits_ok (c # d # r) =
     (is_digit c \<and> (if d = CHR ''_'' then digits_ok r else digits_ok (d # r)))"

definition digits_value :: "string \<Rightarrow> int" where
  "digits_value ds =
     foldl (\<lambda>acc c. 10 * acc + digit_val c) 0 (filter (\<lambda>c. c \<noteq> CHR ''_'') ds)"

definition hex_digit :: "nat \<Rightarrow> char" where
  "hex_digit n = ''0123456789abcdef'' ! (n mod 16)"

definition py_printable :: "char \<Rightarrow> bool" where
  "py_printable c =
     (let n = (of_char c :: nat) in (32 \<le> n \<and> n < 127) \<or> (161 \<le> n \<and> n \<noteq> 173))"

definition repr_char :: "char \<Rightarrow> char \<Rightarrow> string" where
  "repr_char q c =
     (if c = q \<or> c = CHR 0x5C then [CHR 0x5C, c]
      else if c = CHR 0x09 then [CHR 0x5C, CHR ''t'']
      else if c = CHR 0x0A then [CHR 0x5C, CHR ''n'']
      else if c = CHR 0x0D then [CHR 0x5C, CHR ''r'']
      else if py_printable c then [c]
      else [CHR 0x5C, CHR ''x'', hex_digit (of_char c div 16), hex_digit (of_char c)])"

definition py_repr :: "string \<Rightarrow> string" where
  "py_repr s =
     (let q = (if CHR 0x27 \<in> set s \<and> CHR 0x22 \<notin> set s then CHR 0x22 else CHR 0x27)
      in [q] @ concat (map (repr_char q) s) @ [q])"

definition int_error :: "string \<Rightarrow> exn" where
  "int_error s =
     Exn ValueError (''invalid literal for int() with base 10: '' @ take 200 (py_repr s))"

text \<open>
  \<open>int(s)\<close> in base 10: leading spaces, an optional sign, the digits, trailing spaces,
  and nothing else. The interpreter's optional cap on the number of digits of a
  conversion is taken as switched off.
\<close>

definition py_int :: "string \<Rightarrow> exn + int" where
  "py_int s =
     (let t = dropWhile py_space s;
          neg = (t \<noteq> [] \<and> hd t = CHR ''-'');
          u = (if t \<noteq> [] \<and> (hd t = CHR ''-'' \<or> hd t = CHR ''+'') then tl t else t);
          body = takeWhile digit_or_underscore u;
          rest = dropWhile digit_or_underscore u
      in if digits_ok body \<and> list_all py_space rest
         then Inr (if neg then - digits_value body else digits_value body)
         else Inl (int_error s))"

definition digit_char :: "nat \<Rightarrow> char" where
  "digit_char n = ''0123456789'' ! (n mod 10)"

fun str_nat :: "nat \<Rightarrow> string" where
  "str_nat n =
     (if n < 10 then [digit_char n] else str_nat (n div 10) @ [digit_char (n mod 10)])"

declare str_nat.simps [simp del]

definition str_int :: "int \<Rightarrow> string" where
  "str_int i = (if i < 0 then CHR ''-'' # str_nat (nat (- i)) else str_nat (nat i))"

subsection \<open>expand_size\<close>

text \<open>
  \<^verbatim>\<open>
  def expand_size(size: str) -> int:
      if size.endswith("M"):
          return int(size[:-1]) * 1024 * 1024
      elif size.endswith("K"):
          return int(size[:-1]) * 1024
      else:
          return int(size)
  \<close>
\<close>

definition endswith :: "string \<Rightarrow> char \<Rightarrow> bool" where
  "endswith s c = (s \<noteq> [] \<and> last s = c)"

definition expand_size :: "string \<Rightarrow> exn + int" where
  "expand_size size' =
     (if endswith size' (CHR ''M'') then
        (case py_int (butlast size') of Inl e \<Rightarrow> Inl e | Inr n \<Rightarrow> Inr (n * 1024 * 1024))
      else if endswith size' (CHR ''K'') then
        (case py_int (butlast size') of Inl e \<Rightarrow> Inl e | Inr n \<Rightarrow> Inr (n * 1024))
      else py_int size')"

text \<open>The number a string of decimal digits denotes, position by position.\<close>

fun decimal :: "string \<Rightarrow> int" where
  "decimal [] = 0"
| "decimal (c # cs) = digit_val c * 10 ^ length cs + decimal cs"

subsection \<open>The throughput pattern\<close>

text \<open>
  \<^verbatim>\<open>THROUGHPUT_RE = re.compile(r" (\d+\.\d+)MiB/s")\<close>

  \<open>match_at\<close> is one attempt of the pattern at the head of the text: a space, the longest
  run of digits (at least one), a point, the longest run of digits (at least one), and
  the suffix. It gives the group and the text after the match. A shorter run of digits
  never helps, since the character that must follow a run is not a digit. Among 8-bit
  characters \<open>\d\<close> matches the ten ASCII digits only.
  \<open>findall\<close> scans from left to right and resumes after each match.
\<close>

definition match_at :: "string \<Rightarrow> (string \<times> string) option" where
  "match_at s =
     (case s of
        [] \<Rightarrow> None
      | c # r \<Rightarrow>
          if c \<noteq> CHR '' '' then None
          else let d1 = takeWhile is_digit r; r1 = dropWhile is_digit r in
            if d1 = [] then None
            else (case r1 of
                [] \<Rightarrow> None
              | p # r2 \<Rightarrow>
                  if p \<noteq> CHR ''.'' then None
                  else let d2 = takeWhile is_digit r2; r3 = dropWhile is_digit r2 in
                    if d2 = [] then None
                    else if take 5 r3 = ''MiB/s'' then Some (d1 @ ''.'' @ d2, drop 5 r3)
                    else None))"

function findall :: "string \<Rightarrow> string list" where
  "findall [] = []"
| "findall (c # cs) =
     (case match_at (c # cs) of
        Some (g, rest) \<Rightarrow> g # findall rest
      | None \<Rightarrow> findall cs)"
  by pat_completeness auto
termination
proof (relation "measure length")
  show "wf (measure length)" by simp
next
  fix c :: char and cs :: string and x2 :: "string \<times> string" and g rest :: string
  assume m: "match_at (c # cs) = Some x2" and x: "(g, rest) = x2"
  from m x obtain p r2 where r1: "dropWhile is_digit cs = p # r2"
    and rest: "rest = drop 5 (dropWhile is_digit r2)"
    by (auto simp: match_at_def Let_def split: if_splits list.splits)
  have "length rest \<le> length r2"
    unfolding rest by (simp add: le_diff_conv trans_le_add1 length_dropWhile_le)
  also have "length r2 < length (dropWhile is_digit cs)"
    by (simp add: r1)
  also have "\<dots> \<le> length cs"
    by (rule length_dropWhile_le)
  finally show "(rest, c # cs) \<in> measure length" by simp
next
  fix c :: char and cs :: string
  show "(cs, c # cs) \<in> measure length" by simp
qed

text \<open>
  What the pattern means, independently of the scan: a reading is digits, a point and
  digits; it occurs in a text where it stands between a space and the suffix.
\<close>

definition reading :: "string \<Rightarrow> bool" where
  "reading g =
     (\<exists>d1 d2. g = d1 @ ''.'' @ d2 \<and> d1 \<noteq> [] \<and> d2 \<noteq> []
        \<and> list_all is_digit d1 \<and> list_all is_digit d2)"

definition occurs_in :: "string \<Rightarrow> string \<Rightarrow> bool" where
  "occurs_in g s = (\<exists>a b. s = a @ '' '' @ g @ ''MiB/s'' @ b)"

definition readings :: "string \<Rightarrow> string set" where
  "readings s = {g. reading g \<and> occurs_in g s}"

text \<open>
  \<open>max\<close> over a sequence keeps the first item and replaces it by each later item that
  compares greater; on an empty sequence it raises.
\<close>

fun py_max :: "'a::linorder list \<Rightarrow> exn + 'a" where
  "py_max [] = Inl (Exn ValueError ''max() arg is an empty sequence'')"
| "py_max (x # xs) = Inr (foldl (\<lambda>m y. if y > m then y else m) x xs)"

subsection \<open>What the script gets from outside\<close>

text \<open>
  \<open>args\<close> as the argument parser returns it: a list option that was not given on the
  command line is \<open>None\<close>.
\<close>

record namespace =
  arg_part_size :: "string list option"
  arg_connections_per_vip :: "int list option"

text \<open>
  The runtime collects the library calls whose results the script only passes on:
  \<^item> \<open>float_of\<close> is \<open>float(x)\<close> on a matched reading and \<open>float_str\<close> is the text
    \<open>print\<close> shows for a float; the floats are any linear order;
  \<^item> \<open>check_output cmd w\<close> is \<open>subprocess.check_output(cmd).decode("utf-8")\<close> in the
    world \<open>w\<close>: the decoded text or the exception raised, and the world afterwards.
    The external command is taken to return, and the exceptions are those that
    \<open>except Exception\<close> catches: an interrupt of the process is not modelled;
  \<^item> \<open>parse_known_args argv\<close> is the parser's result on the process arguments: the
    namespace and the remaining arguments, or the exit status with which the parser
    itself leaves the process.
\<close>

record ('f, 'w) runtime =
  float_of :: "string \<Rightarrow> 'f"
  float_str :: "'f \<Rightarrow> string"
  check_output :: "string list \<Rightarrow> 'w \<Rightarrow> (exn + string) \<times> 'w"
  parse_known_args :: "string list \<Rightarrow> int + (namespace \<times> string list)"

subsection \<open>run_once\<close>

text \<open>
  \<^verbatim>\<open>
  def run_once(cmd: List[str], part_size: int, connections_per_vip: int) -> float:
      cmd = cmd + ["--part-size", str(part_size), "--connections-per-vip", str(connections_per_vip)]
      out = subprocess.check_output(cmd).decode("utf-8")
      m = THROUGHPUT_RE.findall(out)
      if not m:
          raise Exception("No throughput found")
      throughput = max(float(x) for x in m)
      return throughput
  \<close>
\<close>

definition run_once ::
  "('f::linorder, 'w) runtime \<Rightarrow> string list \<Rightarrow> int \<Rightarrow> int \<Rightarrow> 'w \<Rightarrow> (exn + 'f) \<times> 'w" where
  "run_once rt cmd part_size connections_per_vip w =
     (let cmd' = cmd @ [''--part-size'', str_int part_size,
                        ''--connections-per-vip'', str_int connections_per_vip]
      in case check_output rt cmd' w of
           (Inl e, w') \<Rightarrow> (Inl e, w')
         | (Inr out, w') \<Rightarrow>
             (let m = findall out
              in if m = [] then (Inl (Exn Exception ''No throughput found''), w')
                 else (py_max (map (float_of rt) m), w')))"

subsection \<open>run_sweep\<close>

text \<open>
  \<^verbatim>\<open>
  def run_sweep(args: argparse.Namespace, cmd: List[str]):
      print(f"part size\tconnections per vip\tmax throughput")
      for part_size in args.part_size:
          for connections_per_vip in args.connections_per_vip:
              sys.stdout.write(f"{part_size}\t{connections_per_vip}\t")
              sys.stdout.flush()
              try:
                  throughput = run_once(cmd, expand_size(part_size), connections_per_vip)
                  print(throughput)
              except Exception as e:
                  print(f"failed ({e})")
  \<close>
  The state is the world and standard output, the latter as the list of the texts
  written so far, one per \<open>print\<close> or \<open>write\<close>.
\<close>

type_synonym 'w state = "'w \<times> string list"

definition header_line :: string where
  "header_line = ''part size'' @ [CHR 0x09] @ ''connections per vip'' @ [CHR 0x09]
                 @ ''max throughput'' @ [CHR 0x0A]"

definition row_prefix :: "string \<Rightarrow> int \<Rightarrow> string" where
  "row_prefix part_size connections_per_vip =
     part_size @ [CHR 0x09] @ str_int connections_per_vip @ [CHR 0x09]"

definition failed_line :: "exn \<Rightarrow> string" where
  "failed_line e = ''failed ('' @ exn_str e @ '')'' @ [CHR 0x0A]"

text \<open>The body of the inner loop: the row's first two columns, then the guarded trial.\<close>

definition trial ::
  "('f::linorder, 'w) runtime \<Rightarrow> string list \<Rightarrow> string \<Rightarrow> int \<Rightarrow> 'w state \<Rightarrow> 'w state" where
  "trial rt cmd part_size connections_per_vip st =
     (case st of (w, out) \<Rightarrow>
        (let out1 = out @ [row_prefix part_size connections_per_vip]
         in (case expand_size part_size of
               Inl e \<Rightarrow> (w, out1 @ [failed_line e])
             | Inr n \<Rightarrow>
                 (case run_once rt cmd n connections_per_vip w of
                    (Inl e, w') \<Rightarrow> (w', out1 @ [failed_line e])
                  | (Inr throughput, w') \<Rightarrow>
                      (w', out1 @ [float_str rt throughput @ [CHR 0x0A]])))))"

fun inner_loop ::
  "('f::linorder, 'w) runtime \<Rightarrow> string list \<Rightarrow> string \<Rightarrow> int list \<Rightarrow> 'w state \<Rightarrow> 'w state" where
  "inner_loop rt cmd part_size [] st = st"
| "inner_loop rt cmd part_size (c # cs) st =
     inner_loop rt cmd part_size cs (trial rt cmd part_size c st)"

definition not_iterable :: exn where
  "not_iterable = Exn TypeError ([CHR 0x27] @ ''NoneType'' @ [CHR 0x27] @ '' object is not iterable'')"

text \<open>
  The outer loop. \<open>args.connections_per_vip\<close> is read and iterated once per part size, so
  a \<open>None\<close> there raises at the first part size and not before.
\<close>

fun outer_loop ::
  "('f::linorder, 'w) runtime \<Rightarrow> string list \<Rightarrow> int list option \<Rightarrow> string list \<Rightarrow> 'w state
    \<Rightarrow> (exn + unit) \<times> 'w state" where
  "outer_loop rt cmd conns [] st = (Inr (), st)"
| "outer_loop rt cmd conns (p # ps) st =
     (case conns of
        None \<Rightarrow> (Inl not_iterable, st)
      | Some cs \<Rightarrow> outer_loop rt cmd conns ps (inner_loop rt cmd p cs st))"

definition run_sweep ::
  "('f::linorder, 'w) runtime \<Rightarrow> namespace \<Rightarrow> string list \<Rightarrow> 'w state \<Rightarrow> (exn + unit) \<times> 'w state" where
  "run_sweep rt args cmd st =
     (case st of (w, out) \<Rightarrow>
        (let st1 = (w, out @ [header_line])
         in (case arg_part_size args of
               None \<Rightarrow> (Inl not_iterable, st1)
             | Some ps \<Rightarrow> outer_loop rt cmd (arg_connections_per_vip args) ps st1)))"

subsection \<open>main\<close>

text \<open>
  \<^verbatim>\<open>
  def main():
      p = argparse.ArgumentParser()
      p.add_argument("--part-size", nargs="+")
      p.add_argument("--connections-per-vip", type=int, nargs="+")
      args, cmd = p.parse_known_args()
      if cmd[0] != "--":
          raise Exception("missing remaining args")

      run_sweep(args, cmd[1:])
  \<close>
  The process ends normally, or because the parser left it with a status, or with an
  exception that nothing handled.
\<close>

datatype outcome = Finished | SystemExit int | Unhandled exn

definition main ::
  "('f::linorder, 'w) runtime \<Rightarrow> string list \<Rightarrow> 'w state \<Rightarrow> outcome \<times> 'w state" where
  "main rt argv st =
     (case parse_known_args rt argv of
        Inl status \<Rightarrow> (SystemExit status, st)
      | Inr (args, cmd) \<Rightarrow>
          (case cmd of
             [] \<Rightarrow> (Unhandled (Exn IndexError ''list index out of range''), st)
           | c # rest \<Rightarrow>
               if c \<noteq> ''--'' then (Unhandled (Exn Exception ''missing remaining args''), st)
               else (case run_sweep rt args rest st of
                       (Inl e, st') \<Rightarrow> (Unhandled e, st')
                     | (Inr u, st') \<Rightarrow> (Finished, st'))))"

subsection \<open>The command list as an object\<close>

text \<open>
  In Python \<open>cmd\<close> is a reference to a list object that the caller shares with
  \<open>run_once\<close>. The heap is the list of the list objects allocated so far, and a
  reference is an index into it. \<open>cmd + [...]\<close> allocates a new object and leaves its
  operands alone; the assignment then rebinds the local name \<open>cmd\<close> to the new object.
\<close>

type_synonym heap = "string list list"

definition list_concat :: "heap \<Rightarrow> nat \<Rightarrow> string list \<Rightarrow> heap \<times> nat" where
  "list_concat h a xs = (h @ [h ! a @ xs], length h)"

definition run_once_ref ::
  "('f::linorder, 'w) runtime \<Rightarrow> nat \<Rightarrow> int \<Rightarrow> int \<Rightarrow> heap \<times> 'w \<Rightarrow> (exn + 'f) \<times> heap \<times> 'w" where
  "run_once_ref rt cmd part_size connections_per_vip hw =
     (case hw of (h, w) \<Rightarrow>
        (case list_concat h cmd [''--part-size'', str_int part_size,
                                 ''--connections-per-vip'', str_int connections_per_vip] of
           (h1, cmd') \<Rightarrow>
             (case check_output rt (h1 ! cmd') w of
                (Inl e, w') \<Rightarrow> (Inl e, h1, w')
              | (Inr out, w') \<Rightarrow>
                  (let m = findall out
                   in if m = [] then (Inl (Exn Exception ''No throughput found''), h1, w')
                      else (py_max (map (float_of rt) m), h1, w')))))"

subsection \<open>Devices for stating the properties\<close>

text \<open>
  \<open>logging rt\<close> is the runtime \<open>rt\<close> with a record, kept in the world, of the
  command lists that were run.
\<close>

definition logging :: "('f, 'w) runtime \<Rightarrow> ('f, 'w \<times> string list list) runtime" where
  "logging rt =
     \<lparr>float_of = float_of rt, float_str = float_str rt,
      check_output = (\<lambda>cmd wl. case wl of (w, log) \<Rightarrow>
         (case check_output rt cmd w of (r, w') \<Rightarrow> (r, (w', log @ [cmd])))),
      parse_known_args = parse_known_args rt\<rparr>"

text \<open>The trials of a list of pairs, one after the other.\<close>

fun trials ::
  "('f::linorder, 'w) runtime \<Rightarrow> string list \<Rightarrow> (string \<times> int) list \<Rightarrow> 'w state \<Rightarrow> 'w state" where
  "trials rt cmd [] st = st"
| "trials rt cmd ((p, c) # pcs) st = trials rt cmd pcs (trial rt cmd p c st)"

text \<open>The command list of the trial of a pair, when the token of the pair expands.\<close>

definition trial_cmds :: "string list \<Rightarrow> string \<times> int \<Rightarrow> string list list" where
  "trial_cmds cmd pc =
     (case expand_size (fst pc) of
        Inl e \<Rightarrow> []
      | Inr n \<Rightarrow> [cmd @ [''--part-size'', str_int n, ''--connections-per-vip'', str_int (snd pc)]])"





subsection \<open>A runtime for examples\<close>

text \<open>
  Floats are fixed-point numbers here, an integer count of thousandths: a reading is cut
  after its third decimal, and shown without trailing zeros. The world is the list of
  the results the external command is going to give, one per run; once the list is used
  up the command is not found.
\<close>

definition reading_value :: "string \<Rightarrow> int" where
  "reading_value g =
     (let ip = takeWhile is_digit g; fp = take 3 (drop 1 (dropWhile is_digit g) @ ''000'')
      in decimal ip * 1000 + decimal fp)"

definition value_str :: "int \<Rightarrow> string" where
  "value_str m =
     (let k = nat (m mod 1000)
      in str_int (m div 1000) @ ''.'' @
         (if k mod 100 = 0 then [digit_char (k div 100)]
          else if k mod 10 = 0 then [digit_char (k div 100), digit_char (k div 10)]
          else [digit_char (k div 100), digit_char (k div 10), digit_char k]))"

definition next_result :: "string list \<Rightarrow> (exn + string) list \<Rightarrow> (exn + string) \<times> (exn + string) list" where
  "next_result cmd w =
     (case w of
        [] \<Rightarrow> (Inl (Exn OSError ''No such file or directory''), [])
      | r # rs \<Rightarrow> (r, rs))"

definition scripted ::
  "(string list \<Rightarrow> int + (namespace \<times> string list)) \<Rightarrow> (int, (exn + string) list) runtime" where
  "scripted parser =
     \<lparr>float_of = reading_value, float_str = value_str, check_output = next_result,
      parse_known_args = parser\<rparr>"

definition no_parser :: "string list \<Rightarrow> int + (namespace \<times> string list)" where
  "no_parser argv = Inl 2"

text \<open>A parser given by the table of its results; it leaves with status 2 elsewhere.\<close>

definition table_parser ::
  "(string list \<times> namespace \<times> string list) list \<Rightarrow> string list
    \<Rightarrow> int + (namespace \<times> string list)" where
  "table_parser tbl argv = (case map_of tbl argv of None \<Rightarrow> Inl 2 | Some r \<Rightarrow> Inr r)"

section \<open>Size tokens\<close>

















section \<open>The throughput pattern and run_once\<close>

lemma span_digits:
  "list_all is_digit d \<Longrightarrow> \<not> is_digit x \<Longrightarrow>
     takeWhile is_digit (d @ x # r) = d \<and> dropWhile is_digit (d @ x # r) = x # r"
  by (induction d) auto

lemma list_all_takeWhile: "list_all P (takeWhile P xs)"
  by (induction xs) auto

lemma not_digit_chars:
  "\<not> is_digit (CHR ''.'')" "\<not> is_digit (CHR ''M'')" "\<not> is_digit (CHR '' '')"
  by (simp_all add: is_digit_def)

lemma match_at_complete:
  assumes "d1 \<noteq> []" "d2 \<noteq> []" "list_all is_digit d1" "list_all is_digit d2"
  shows "match_at ('' '' @ (d1 @ ''.'' @ d2) @ ''MiB/s'' @ r) = Some (d1 @ ''.'' @ d2, r)"
proof -
  have 1: "takeWhile is_digit (d1 @ CHR ''.'' # d2 @ ''MiB/s'' @ r) = d1"
    "dropWhile is_digit (d1 @ CHR ''.'' # d2 @ ''MiB/s'' @ r) = CHR ''.'' # d2 @ ''MiB/s'' @ r"
    using span_digits [OF assms(3) not_digit_chars(1)] by simp_all
  have 2: "takeWhile is_digit (d2 @ CHR ''M'' # ''iB/s'' @ r) = d2"
    "dropWhile is_digit (d2 @ CHR ''M'' # ''iB/s'' @ r) = CHR ''M'' # ''iB/s'' @ r"
    using span_digits [OF assms(4) not_digit_chars(2)] by simp_all
  show ?thesis
    using assms(1,2) 1 2 by (simp add: match_at_def Let_def)
qed

lemma match_at_sound:
  assumes "match_at s = Some (g, r)"
  shows "reading g \<and> s = '' '' @ g @ ''MiB/s'' @ r"
proof -
  from assms obtain r0 where s: "s = CHR '' '' # r0"
    by (auto simp: match_at_def split: list.splits if_splits)
  define d1 where "d1 = takeWhile is_digit r0"
  define r1 where "r1 = dropWhile is_digit r0"
  from assms s have d1: "d1 \<noteq> []"
    by (auto simp: match_at_def Let_def d1_def split: list.splits if_splits)
  from assms s obtain r2 where r1: "r1 = CHR ''.'' # r2"
    by (auto simp: match_at_def Let_def r1_def split: list.splits if_splits)
  define d2 where "d2 = takeWhile is_digit r2"
  define r3 where "r3 = dropWhile is_digit r2"
  from assms s r1 have d2: "d2 \<noteq> []" and t: "take 5 r3 = ''MiB/s''"
    and g: "g = d1 @ ''.'' @ d2" and r: "r = drop 5 r3"
    by (auto simp: match_at_def Let_def r1_def [symmetric] d1_def [symmetric]
        d2_def r3_def split: list.splits if_splits)
  have "r0 = d1 @ r1" by (simp add: d1_def r1_def)
  moreover have "r2 = d2 @ r3" by (simp add: d2_def r3_def)
  moreover have "r3 = ''MiB/s'' @ r"
    using append_take_drop_id [of 5 r3] t r by simp
  ultimately have "s = '' '' @ g @ ''MiB/s'' @ r"
    by (simp add: s g r1)
  moreover have "reading g"
  proof -
    have "list_all is_digit d1" "list_all is_digit d2"
      by (simp_all add: d1_def d2_def list_all_takeWhile)
    with d1 d2 g show ?thesis
      unfolding reading_def by blast
  qed
  ultimately show ?thesis by simp
qed

lemma reading_no_space: "reading g \<Longrightarrow> CHR '' '' \<notin> set (g @ ''MiB/s'')"
  using not_digit_chars(3) by (auto simp: reading_def list_all_iff)

lemma findall_sound: "g \<in> set (findall s) \<Longrightarrow> reading g \<and> occurs_in g s"
proof (induction s rule: findall.induct)
  case 1
  then show ?case by simp
next
  case (2 c cs)
  show ?case
  proof (cases "match_at (c # cs)")
    case None
    with 2(1,3) have "reading g \<and> occurs_in g cs" by simp
    then obtain a b where "reading g" and "cs = a @ '' '' @ g @ ''MiB/s'' @ b"
      by (auto simp: occurs_in_def)
    then have "reading g" and "c # cs = (c # a) @ '' '' @ g @ ''MiB/s'' @ b" by simp_all
    then show ?thesis
      unfolding occurs_in_def by blast
  next
    case (Some x)
    obtain g' r where x: "x = (g', r)" by (cases x)
    from match_at_sound [of "c # cs" g' r] Some x
    have g': "reading g'" and s: "c # cs = '' '' @ g' @ ''MiB/s'' @ r" by simp_all
    from 2(3) Some x have "g = g' \<or> g \<in> set (findall r)" by simp
    then show ?thesis
    proof
      assume "g = g'"
      with g' s show ?thesis
        unfolding occurs_in_def by (intro conjI exI [of _ "[]"] exI [of _ r]) simp_all
    next
      assume "g \<in> set (findall r)"
      with 2(2) [OF Some x [symmetric]] have rg: "reading g" and "occurs_in g r" by simp_all
      then obtain a b where "r = a @ '' '' @ g @ ''MiB/s'' @ b"
        by (auto simp: occurs_in_def)
      with s have "c # cs = ('' '' @ g' @ ''MiB/s'' @ a) @ '' '' @ g @ ''MiB/s'' @ b" by simp
      then have "occurs_in g (c # cs)"
        unfolding occurs_in_def by blast
      with rg show ?thesis by simp
    qed
  qed
qed

text \<open>An occurrence that starts inside a text without a space starts after that text.\<close>

lemma split_before_space:
  assumes "a @ CHR '' '' # x = y @ r" and "CHR '' '' \<notin> set y"
  shows "\<exists>a'. a = y @ a' \<and> r = a' @ CHR '' '' # x"
proof -
  from assms(1) obtain us where
    "(a = y @ us \<and> us @ CHR '' '' # x = r) \<or> (a @ us = y \<and> CHR '' '' # x = us @ r)"
    by (auto simp: append_eq_append_conv2)
  then show ?thesis
  proof
    assume "a = y @ us \<and> us @ CHR '' '' # x = r"
    then show ?thesis by auto
  next
    assume h: "a @ us = y \<and> CHR '' '' # x = us @ r"
    show ?thesis
    proof (cases us)
      case Nil
      with h show ?thesis by auto
    next
      case (Cons u us')
      with h have "u = CHR '' ''" by simp
      with h Cons assms(2) show ?thesis by auto
    qed
  qed
qed

lemma findall_complete:
  "reading g \<Longrightarrow> s = a @ '' '' @ g @ ''MiB/s'' @ b \<Longrightarrow> g \<in> set (findall s)"
proof (induction s arbitrary: a rule: findall.induct)
  case 1
  then show ?case by simp
next
  case (2 c cs)
  from 2(3) obtain d1 d2 where g: "g = d1 @ ''.'' @ d2" "d1 \<noteq> []" "d2 \<noteq> []"
    "list_all is_digit d1" "list_all is_digit d2"
    by (auto simp: reading_def)
  show ?case
  proof (cases a)
    case Nil
    with 2(4) have "c # cs = '' '' @ g @ ''MiB/s'' @ b" by simp
    with match_at_complete [OF g(2,3,4,5), of b] g(1)
    have "match_at (c # cs) = Some (g, b)" by simp
    then show ?thesis by simp
  next
    case (Cons c' a')
    with 2(4) have cs: "cs = a' @ '' '' @ g @ ''MiB/s'' @ b" and c: "c = c'" by simp_all
    show ?thesis
    proof (cases "match_at (c # cs)")
      case None
      with 2(1) [OF None 2(3) cs] show ?thesis by simp
    next
      case (Some x)
      obtain g' r where x: "x = (g', r)" by (cases x)
      from match_at_sound [of "c # cs" g' r] Some x
      have g': "reading g'" and s: "c # cs = '' '' @ g' @ ''MiB/s'' @ r" by simp_all
      from s cs have "a' @ CHR '' '' # (g @ ''MiB/s'' @ b) = (g' @ ''MiB/s'') @ r" by simp
      from split_before_space [OF this reading_no_space [OF g']]
      obtain a'' where "r = a'' @ '' '' @ g @ ''MiB/s'' @ b" by auto
      from 2(2) [OF Some x [symmetric] 2(3) this] Some x show ?thesis by simp
    qed
  qed
qed

text \<open>The scan finds exactly the readings that occur in the text.\<close>

lemma findall_readings: "set (findall s) = readings s"
  using findall_sound findall_complete
  by (auto simp: readings_def occurs_in_def)

lemma findall_empty_iff: "findall s = [] \<longleftrightarrow> readings s = {}"
  using findall_readings [of s] by auto

lemma foldl_fold_max:
  "foldl (\<lambda>m y. if y > m then y else m) x ys = fold max ys (x :: 'a :: linorder)"
  by (induction ys arbitrary: x) (auto simp: max_def)

lemma py_max_Max: "xs \<noteq> [] \<Longrightarrow> py_max xs = Inr (Max (set xs))"
  by (cases xs) (simp_all add: foldl_fold_max Max.set_eq_fold del: set_simps)

lemma run_once_text:
  assumes "check_output rt (cmd @ [''--part-size'', str_int n,
             ''--connections-per-vip'', str_int c]) w = (Inr out, w')"
  shows "run_once rt cmd n c w =
           (if readings out = {} then (Inl (Exn Exception ''No throughput found''), w')
            else (Inr (Max (float_of rt ` readings out)), w'))"
proof (cases "findall out = []")
  case True
  with assms show ?thesis
    by (simp add: run_once_def findall_empty_iff [symmetric])
next
  case False
  then have "py_max (map (float_of rt) (findall out)) = Inr (Max (float_of rt ` readings out))"
    using py_max_Max [of "map (float_of rt) (findall out)"] by (simp add: findall_readings)
  with False assms show ?thesis
    by (simp add: run_once_def findall_empty_iff [symmetric])
qed

lemma run_once_error:
  assumes "check_output rt (cmd @ [''--part-size'', str_int n,
             ''--connections-per-vip'', str_int c]) w = (Inl e, w')"
  shows "run_once rt cmd n c w = (Inl e, w')"
  using assms by (simp add: run_once_def)

text \<open>
  C2. When the external command has returned a text, \<open>run_once\<close> fails, with the error
  \<open>No throughput found\<close>, exactly when no reading occurs in the text; otherwise it
  returns the greatest of the floats of all the readings that occur in it.
\<close>

theorem run_once_max_or_error:
  assumes "check_output rt (cmd @ [''--part-size'', str_int n,
             ''--connections-per-vip'', str_int c]) w = (Inr out, w')"
  shows "((\<exists>e. fst (run_once rt cmd n c w) = Inl e) \<longleftrightarrow> readings out = {})
       \<and> (fst (run_once rt cmd n c w) = Inl (Exn Exception ''No throughput found'')
            \<longleftrightarrow> readings out = {})
       \<and> (readings out \<noteq> {} \<longrightarrow>
            fst (run_once rt cmd n c w) = Inr (Max (float_of rt ` readings out)))"
  by (simp add: run_once_text [OF assms])

theorem run_once_max_or_error_witness:
  "check_output (scripted no_parser)
      ([''bench''] @ [''--part-size'', str_int 1048576, ''--connections-per-vip'', str_int 10])
      [Inr '' 1.0MiB/s 9.5MiB/s 3.25MiB/s'']
     = (Inr '' 1.0MiB/s 9.5MiB/s 3.25MiB/s'', [])
   \<and> readings '' 1.0MiB/s 9.5MiB/s 3.25MiB/s'' \<noteq> {}
   \<and> fst (run_once (scripted no_parser) [''bench''] 1048576 10
            [Inr '' 1.0MiB/s 9.5MiB/s 3.25MiB/s'']) = Inr 9500
   \<and> Max (reading_value ` readings '' 1.0MiB/s 9.5MiB/s 3.25MiB/s'') = 9500"
proof -
  let ?out = "'' 1.0MiB/s 9.5MiB/s 3.25MiB/s''"
  let ?rt = "scripted no_parser :: (int, (exn + string) list) runtime"
  have h: "check_output ?rt
      ([''bench''] @ [''--part-size'', str_int 1048576, ''--connections-per-vip'', str_int 10])
      [Inr ?out] = (Inr ?out, [])"
    by (simp add: scripted_def next_result_def)
  have r: "fst (run_once ?rt [''bench''] 1048576 10 [Inr ?out]) = Inr 9500"
    by (simp add: run_once_def scripted_def next_result_def match_at_def is_digit_def
        reading_value_def digit_val_def)
  have f: "float_of ?rt = reading_value"
    by (simp add: scripted_def)
  show ?thesis
    using h r run_once_max_or_error [OF h] by (auto simp: f)
qed

text \<open>
  C9. Whatever the scan matches is a reading, with digits on both sides of a point, and
  stands right after a space. So a text without a space, or without a point, has no
  match, and a trial whose output has no reading fails with \<open>No throughput found\<close>: so do
  \<open>100MiB/s\<close> after a space or not, and \<open>12.5MiB/s\<close> at the start of the text or after
  another character than a space.
\<close>

theorem unmatched_figures:
  "(\<forall>g \<in> set (findall s). reading g \<and> occurs_in g s)
   \<and> (CHR '' '' \<notin> set t \<or> CHR ''.'' \<notin> set t \<longrightarrow> findall t = [])
   \<and> (check_output rt (cmd @ [''--part-size'', str_int n,
          ''--connections-per-vip'', str_int c]) w = (Inr out, w') \<and> readings out = {}
        \<longrightarrow> run_once rt cmd n c w = (Inl (Exn Exception ''No throughput found''), w'))
   \<and> findall ''100MiB/s'' = [] \<and> findall '' 100MiB/s'' = []
   \<and> findall ''12.5MiB/s'' = [] \<and> findall ''x12.5MiB/s'' = []"
proof -
  have a: "\<forall>g \<in> set (findall s). reading g \<and> occurs_in g s"
    using findall_sound by blast
  have b: "CHR '' '' \<notin> set t \<or> CHR ''.'' \<notin> set t \<longrightarrow> findall t = []"
  proof
    assume h: "CHR '' '' \<notin> set t \<or> CHR ''.'' \<notin> set t"
    have "readings t = {}"
    proof (rule ccontr)
      assume "readings t \<noteq> {}"
      then obtain g a b d1 d2 where "t = a @ '' '' @ g @ ''MiB/s'' @ b" "g = d1 @ ''.'' @ d2"
        by (auto simp: readings_def reading_def occurs_in_def)
      then have "CHR '' '' \<in> set t \<and> CHR ''.'' \<in> set t" by simp
      with h show False by simp
    qed
    then show "findall t = []" by (simp add: findall_empty_iff)
  qed
  have c: "check_output rt (cmd @ [''--part-size'', str_int n,
          ''--connections-per-vip'', str_int c]) w = (Inr out, w') \<and> readings out = {}
        \<longrightarrow> run_once rt cmd n c w = (Inl (Exn Exception ''No throughput found''), w')"
    by (simp add: run_once_text)
  have d: "findall ''100MiB/s'' = []" "findall '' 100MiB/s'' = []"
    "findall ''12.5MiB/s'' = []" "findall ''x12.5MiB/s'' = []"
    by (simp_all add: match_at_def is_digit_def)
  from a b c d show ?thesis by simp
qed

theorem unmatched_figures_witness:
  "''12.5'' \<in> set (findall ''at 12.5MiB/s'') \<and> reading ''12.5''
   \<and> occurs_in ''12.5'' ''at 12.5MiB/s''
   \<and> CHR '' '' \<notin> set ''100MiB/s'' \<and> findall ''100MiB/s'' = []
   \<and> check_output (scripted no_parser)
        ([''bench''] @ [''--part-size'', str_int 1, ''--connections-per-vip'', str_int 2])
        [Inr ''12.5MiB/s''] = (Inr ''12.5MiB/s'', [])
   \<and> readings ''12.5MiB/s'' = {}
   \<and> run_once (scripted no_parser) [''bench''] 1 2 [Inr ''12.5MiB/s'']
       = (Inl (Exn Exception ''No throughput found''), [])"
proof -
  let ?rt = "scripted no_parser :: (int, (exn + string) list) runtime"
  have m: "''12.5'' \<in> set (findall ''at 12.5MiB/s'')"
    by (simp add: match_at_def is_digit_def)
  have h: "check_output ?rt
        ([''bench''] @ [''--part-size'', str_int 1, ''--connections-per-vip'', str_int 2])
        [Inr ''12.5MiB/s''] = (Inr ''12.5MiB/s'', [])"
    by (simp add: scripted_def next_result_def)
  have e: "readings ''12.5MiB/s'' = {}"
    using findall_empty_iff [of "''12.5MiB/s''"] by (simp add: match_at_def is_digit_def)
  show ?thesis
    using m h e
      unmatched_figures [of "''at 12.5MiB/s''" "''100MiB/s''" ?rt "[''bench'']" 1 2
        "[Inr ''12.5MiB/s'']" "''12.5MiB/s''" "[]"]
    by auto
qed

section \<open>The sweep\<close>

lemma inner_loop_trials: "inner_loop rt cmd p cs st = trials rt cmd (map (Pair p) cs) st"
  by (induction cs arbitrary: st) simp_all

lemma trials_append: "trials rt cmd (xs @ ys) st = trials rt cmd ys (trials rt cmd xs st)"
  by (induction rt cmd xs st rule: trials.induct) simp_all

lemma outer_loop_trials:
  "outer_loop rt cmd (Some cs) ps st = (Inr (), trials rt cmd (List.product ps cs) st)"
  by (induction ps arbitrary: st) (simp_all add: inner_loop_trials trials_append)

lemma run_sweep_trials:
  assumes "arg_part_size args = Some ps" and "arg_connections_per_vip args = Some cs"
  shows "run_sweep rt args cmd (w, out)
           = (Inr (), trials rt cmd (List.product ps cs) (w, out @ [header_line]))"
  using assms by (simp add: run_sweep_def outer_loop_trials)

lemma trial_cases:
  "trial rt cmd p c (w, out) =
     (case expand_size p of
        Inl e \<Rightarrow> (w, out @ [row_prefix p c, failed_line e])
      | Inr n \<Rightarrow> (case run_once rt cmd n c w of
           (Inl e, w') \<Rightarrow> (w', out @ [row_prefix p c, failed_line e])
         | (Inr x, w') \<Rightarrow> (w', out @ [row_prefix p c, float_str rt x @ [CHR 0x0A]])))"
  by (simp add: trial_def split: sum.splits prod.splits)




lemma logging_simps:
  "float_of (logging rt) = float_of rt" "float_str (logging rt) = float_str rt"
  "check_output (logging rt) cmd (w, log) =
     (case check_output rt cmd w of (r, w') \<Rightarrow> (r, (w', log @ [cmd])))"
  by (simp_all add: logging_def)

lemma run_once_logging:
  "run_once (logging rt) cmd n c (w, log) =
     (case run_once rt cmd n c w of
        (r, w') \<Rightarrow> (r, (w', log @ [cmd @ [''--part-size'', str_int n,
                                           ''--connections-per-vip'', str_int c]])))"
  by (simp add: run_once_def logging_simps Let_def split: prod.splits sum.splits)

lemma trial_logging:
  "trial (logging rt) cmd p c ((w, log), out) =
     (case trial rt cmd p c (w, out) of
        (w', out') \<Rightarrow> ((w', log @ trial_cmds cmd (p, c)), out'))"
  by (simp add: trial_cases run_once_logging trial_cmds_def logging_simps
      split: prod.splits sum.splits)

lemma trials_logging:
  "trials (logging rt) cmd pcs ((w, log), out) =
     (case trials rt cmd pcs (w, out) of
        (w', out') \<Rightarrow> ((w', log @ concat (map (trial_cmds cmd) pcs)), out'))"
proof (induction pcs arbitrary: w log out)
  case Nil
  then show ?case by simp
next
  case (Cons pc pcs)
  obtain p c where pc: "pc = (p, c)" by (cases pc)
  obtain w1 out1 where t: "trial rt cmd p c (w, out) = (w1, out1)"
    by (cases "trial rt cmd p c (w, out)")
  show ?case
    by (simp add: pc trial_logging t Cons)
qed




subsection \<open>Evaluating examples\<close>

lemmas int_eval = expand_size_def endswith_def py_int_def
  py_space_def digit_or_underscore_def is_digit_def digits_value_def digit_val_def

lemmas str_eval = str_int_def str_nat.simps digit_char_def

lemma e1: "expand_size ''1M'' = Inr 1048576" "expand_size ''2M'' = Inr 2097152"
  by (simp_all add: int_eval)

lemma s1: "str_int 10 = ''10''" "str_int 20 = ''20''" "str_int 1048576 = ''1048576''"
  by (simp_all add: str_eval)




lemma scripted_simps:
  "float_of (scripted ps) = reading_value" "float_str (scripted ps) = value_str"
  "check_output (scripted ps) = next_result" "parse_known_args (scripted ps) = ps"
  by (simp_all add: scripted_def)



subsection \<open>The command of a trial\<close>








lemma e2: "expand_size ''512K'' = Inr 524288" "expand_size ''abc'' = Inl (int_error ''abc'')"
  by (simp_all add: int_eval)

lemma s2: "str_int 524288 = ''524288''" "str_int 1 = ''1''" "str_int 2 = ''2''" "str_int 3 = ''3''"
  by (simp_all add: str_eval)

lemma int_error_abc:
  "exn_str (int_error ''abc'')
     = ''invalid literal for int() with base 10: '' @ [CHR 0x27] @ ''abc'' @ [CHR 0x27]"
  by (simp add: int_error_def py_repr_def repr_char_def py_printable_def Let_def)



lemma trial_failed:
  assumes "expand_size p = Inr n" and "run_once rt cmd n c w = (Inl e, w')"
  shows "trial rt cmd p c (w, out) = (w', out @ [row_prefix p c, failed_line e])"
  using assms by (simp add: trial_cases)

lemma trial_malformed:
  assumes "expand_size p = Inl e"
  shows "trial rt cmd p c (w, out) = (w, out @ [row_prefix p c, failed_line e])"
  using assms by (simp add: trial_cases)

lemma run_sweep_logging:
  assumes "arg_part_size args = Some ps" and "arg_connections_per_vip args = Some cs"
  shows "run_sweep (logging rt) args cmd ((w, log), out) =
     (case run_sweep rt args cmd (w, out) of
        (r, w', out') \<Rightarrow>
          (r, (w', log @ concat (map (trial_cmds cmd) (List.product ps cs))), out'))"
  by (simp add: run_sweep_trials [OF assms] trials_logging split: prod.splits)

text \<open>
  C3. When the token of a trial expands and the trial fails, because the external command
  fails or because its output has no reading, the trial ends normally and has written the
  original token, the connection count and \<open>failed (\<close>description\<open>)\<close>. The sweep ends
  normally whatever the trials did: after any trial the remaining ones are run, and the
  commands run are those of all the pairs whose token expands, in order.
\<close>

theorem trial_failure_reported:
  "(expand_size p = Inr n
      \<and> (check_output rt (cmd @ [''--part-size'', str_int n,
               ''--connections-per-vip'', str_int c]) w = (Inl e, w')
          \<or> (\<exists>text. check_output rt (cmd @ [''--part-size'', str_int n,
               ''--connections-per-vip'', str_int c]) w = (Inr text, w')
                \<and> readings text = {} \<and> e = Exn Exception ''No throughput found''))
     \<longrightarrow> trial rt cmd p c (w, out)
           = (w', out @ [p @ [CHR 0x09] @ str_int c @ [CHR 0x09],
                         ''failed ('' @ exn_str e @ '')'' @ [CHR 0x0A]]))
   \<and> (arg_part_size args = Some ps \<and> arg_connections_per_vip args = Some cs \<longrightarrow>
        fst (run_sweep rt args cmd2 (w2, out2)) = Inr ()
        \<and> (List.product ps cs = xs @ (p2, c2) # ys \<longrightarrow>
             snd (run_sweep rt args cmd2 (w2, out2))
               = trials rt cmd2 ys (trial rt cmd2 p2 c2
                   (trials rt cmd2 xs (w2, out2 @ [header_line]))))
        \<and> run_sweep (logging rt) args cmd2 ((w2, log), out2)
            = (case run_sweep rt args cmd2 (w2, out2) of
                 (r, w3, out3) \<Rightarrow>
                   (r, (w3, log @ concat (map (trial_cmds cmd2) (List.product ps cs))), out3)))"
proof -
  have a: "trial rt cmd p c (w, out)
           = (w', out @ [p @ [CHR 0x09] @ str_int c @ [CHR 0x09],
                         ''failed ('' @ exn_str e @ '')'' @ [CHR 0x0A]])"
    if p: "expand_size p = Inr n"
      and f: "check_output rt (cmd @ [''--part-size'', str_int n,
               ''--connections-per-vip'', str_int c]) w = (Inl e, w')
          \<or> (\<exists>text. check_output rt (cmd @ [''--part-size'', str_int n,
               ''--connections-per-vip'', str_int c]) w = (Inr text, w')
                \<and> readings text = {} \<and> e = Exn Exception ''No throughput found'')"
  proof -
    from f have "run_once rt cmd n c w = (Inl e, w')"
      by (auto simp: run_once_error run_once_text)
    from trial_failed [OF p this] show ?thesis
      by (simp add: row_prefix_def failed_line_def)
  qed
  have b: "fst (run_sweep rt args cmd2 (w2, out2)) = Inr ()
        \<and> (List.product ps cs = xs @ (p2, c2) # ys \<longrightarrow>
             snd (run_sweep rt args cmd2 (w2, out2))
               = trials rt cmd2 ys (trial rt cmd2 p2 c2
                   (trials rt cmd2 xs (w2, out2 @ [header_line]))))
        \<and> run_sweep (logging rt) args cmd2 ((w2, log), out2)
            = (case run_sweep rt args cmd2 (w2, out2) of
                 (r, w3, out3) \<Rightarrow>
                   (r, (w3, log @ concat (map (trial_cmds cmd2) (List.product ps cs))), out3))"
    if s: "arg_part_size args = Some ps" "arg_connections_per_vip args = Some cs"
    using run_sweep_logging [OF s, of rt cmd2 w2 log out2]
    by (simp add: run_sweep_trials [OF s] trials_append)
  from a b show ?thesis by blast
qed

lemma run_once_scripted:
  "run_once (scripted ps) cmd n c (Inl e # w) = (Inl e, w)"
  "run_once (scripted ps) cmd n c (Inr t # w) =
     (if findall t = [] then (Inl (Exn Exception ''No throughput found''), w)
      else (py_max (map reading_value (findall t)), w))"
  by (simp_all add: run_once_def scripted_simps next_result_def Let_def)

lemma f2: "findall ''100MiB/s'' = []" "findall ''x 5.5MiB/s'' = [''5.5'']"
  by (simp_all add: match_at_def is_digit_def)

lemma rv2: "reading_value ''5.5'' = 5500"
  by (simp add: reading_value_def is_digit_def digit_val_def)

lemma v2: "value_str 5500 = ''5.5''"
  by (simp add: value_str_def str_eval)

theorem trial_failure_reported_witness:
  "expand_size ''1M'' = Inr 1048576
   \<and> check_output (scripted no_parser)
        ([''bench''] @ [''--part-size'', str_int 1048576, ''--connections-per-vip'', str_int 1])
        [Inl (Exn CalledProcessError ''returned non-zero exit status 1''),
         Inr ''100MiB/s'', Inr ''x 5.5MiB/s'']
       = (Inl (Exn CalledProcessError ''returned non-zero exit status 1''),
          [Inr ''100MiB/s'', Inr ''x 5.5MiB/s''])
   \<and> List.product [''1M''] [1, 2, 3] = [] @ (''1M'', 1) # [(''1M'', 2), (''1M'', 3 :: int)]
   \<and> run_sweep (logging (scripted no_parser))
        \<lparr>arg_part_size = Some [''1M''], arg_connections_per_vip = Some [1, 2, 3]\<rparr>
        [''bench'']
        (([Inl (Exn CalledProcessError ''returned non-zero exit status 1''),
           Inr ''100MiB/s'', Inr ''x 5.5MiB/s''], []), [])
       = (Inr (),
          ([], [[''bench'', ''--part-size'', ''1048576'', ''--connections-per-vip'', ''1''],
                [''bench'', ''--part-size'', ''1048576'', ''--connections-per-vip'', ''2''],
                [''bench'', ''--part-size'', ''1048576'', ''--connections-per-vip'', ''3'']]),
          [header_line,
           ''1M'' @ [CHR 0x09] @ ''1'' @ [CHR 0x09],
           ''failed (returned non-zero exit status 1)'' @ [CHR 0x0A],
           ''1M'' @ [CHR 0x09] @ ''2'' @ [CHR 0x09],
           ''failed (No throughput found)'' @ [CHR 0x0A],
           ''1M'' @ [CHR 0x09] @ ''3'' @ [CHR 0x09],
           ''5.5'' @ [CHR 0x0A]])"
proof -
  let ?rt = "scripted no_parser :: (int, (exn + string) list) runtime"
  let ?e = "Exn CalledProcessError ''returned non-zero exit status 1''"
  let ?w = "[Inl ?e, Inr ''100MiB/s'', Inr ''x 5.5MiB/s'']"
  let ?args = "\<lparr>arg_part_size = Some [''1M''], arg_connections_per_vip = Some [1, 2, 3]\<rparr>"
  have h: "check_output ?rt
        ([''bench''] @ [''--part-size'', str_int 1048576, ''--connections-per-vip'', str_int 1])
        ?w = (Inl ?e, [Inr ''100MiB/s'', Inr ''x 5.5MiB/s''])"
    by (simp add: scripted_simps next_result_def)
  have s: "run_sweep ?rt ?args [''bench''] (?w, [])
       = (Inr (), [],
          [header_line,
           ''1M'' @ [CHR 0x09] @ ''1'' @ [CHR 0x09],
           ''failed (returned non-zero exit status 1)'' @ [CHR 0x0A],
           ''1M'' @ [CHR 0x09] @ ''2'' @ [CHR 0x09],
           ''failed (No throughput found)'' @ [CHR 0x0A],
           ''1M'' @ [CHR 0x09] @ ''3'' @ [CHR 0x09],
           ''5.5'' @ [CHR 0x0A]])"
    by (simp add: run_sweep_trials trial_cases e1 run_once_scripted f2 rv2 v2 scripted_simps
        row_prefix_def failed_line_def s2 del: findall.simps)
  show ?thesis
    using h s
      trial_failure_reported [of "''1M''" 1048576 ?rt "[''bench'']" 1 ?w ?e
        "[Inr ''100MiB/s'', Inr ''x 5.5MiB/s'']" "[]" ?args "[''1M'']" "[1, 2, 3]"
        "[''bench'']" ?w "[]" "[]" "''1M''" 1 "[(''1M'', 2), (''1M'', 3)]" "[]"]
    by (simp add: e1 trial_cmds_def s1 s2)
qed

lemma expand_size_error_class: "expand_size p = Inl e \<Longrightarrow> exn_cls e = ValueError"
  by (auto simp: expand_size_def py_int_def Let_def int_error_def split: if_splits sum.splits)

lemma main_sweep:
  assumes "parse_known_args rt argv = Inr (args, ''--'' # cmd)"
  shows "main rt argv st =
     (case run_sweep rt args cmd st of
        (Inl e, st') \<Rightarrow> (Unhandled e, st')
      | (Inr u, st') \<Rightarrow> (Finished, st'))"
  using assms by (simp add: main_def)

text \<open>
  C4, as amended. A malformed size token raises a \<open>ValueError\<close> each time a trial expands
  it, and the handler of the trial catches it: the trial writes the token, the connection
  count and \<open>failed (\<close>description\<open>)\<close>, runs no command and leaves the world as it was.
  With both options given and the separator present the process ends normally after all
  the trials, malformed tokens or not.
\<close>

theorem malformed_token_reported:
  "(expand_size p = Inl e \<longrightarrow>
      exn_cls e = ValueError
      \<and> trial rt cmd p c (w, out)
          = (w, out @ [p @ [CHR 0x09] @ str_int c @ [CHR 0x09],
                       ''failed ('' @ exn_str e @ '')'' @ [CHR 0x0A]]))
   \<and> (parse_known_args rt argv = Inr (args, ''--'' # cmd2)
        \<and> arg_part_size args = Some ps \<and> arg_connections_per_vip args = Some cs \<longrightarrow>
        main rt argv (w2, out2)
          = (Finished, trials rt cmd2 (List.product ps cs) (w2, out2 @ [header_line])))"
proof -
  have a: "exn_cls e = ValueError
      \<and> trial rt cmd p c (w, out)
          = (w, out @ [p @ [CHR 0x09] @ str_int c @ [CHR 0x09],
                       ''failed ('' @ exn_str e @ '')'' @ [CHR 0x0A]])"
    if "expand_size p = Inl e"
    using trial_malformed [OF that, of rt cmd c w out] expand_size_error_class [OF that]
    by (simp add: row_prefix_def failed_line_def)
  have b: "main rt argv (w2, out2)
          = (Finished, trials rt cmd2 (List.product ps cs) (w2, out2 @ [header_line]))"
    if "parse_known_args rt argv = Inr (args, ''--'' # cmd2)"
      and "arg_part_size args = Some ps" and "arg_connections_per_vip args = Some cs"
    using that by (simp add: main_sweep run_sweep_trials)
  from a b show ?thesis by blast
qed

lemma e3: "expand_size ''512k'' = Inl (int_error ''512k'')"
  by (simp add: int_eval)

lemma int_error_512k:
  "exn_str (int_error ''512k'')
     = ''invalid literal for int() with base 10: '' @ [CHR 0x27] @ ''512k'' @ [CHR 0x27]"
  by (simp add: int_error_def py_repr_def repr_char_def py_printable_def Let_def)

lemma table_parser_hit: "table_parser [(argv, r)] argv = Inr r"
  by (simp add: table_parser_def)

theorem malformed_token_reported_witness:
  "expand_size ''512k'' = Inl (int_error ''512k'')
   \<and> parse_known_args
        (scripted (table_parser
           [([''--part-size'', ''512k'', ''1M'', ''--connections-per-vip'', ''10'', ''--'', ''bench''],
             \<lparr>arg_part_size = Some [''512k'', ''1M''], arg_connections_per_vip = Some [10]\<rparr>,
             [''--'', ''bench''])]))
        [''--part-size'', ''512k'', ''1M'', ''--connections-per-vip'', ''10'', ''--'', ''bench'']
       = Inr (\<lparr>arg_part_size = Some [''512k'', ''1M''], arg_connections_per_vip = Some [10]\<rparr>,
              ''--'' # [''bench''])
   \<and> main
        (scripted (table_parser
           [([''--part-size'', ''512k'', ''1M'', ''--connections-per-vip'', ''10'', ''--'', ''bench''],
             \<lparr>arg_part_size = Some [''512k'', ''1M''], arg_connections_per_vip = Some [10]\<rparr>,
             [''--'', ''bench''])]))
        [''--part-size'', ''512k'', ''1M'', ''--connections-per-vip'', ''10'', ''--'', ''bench'']
        ([Inr ''x 5.5MiB/s''], [])
       = (Finished, [],
          [header_line,
           ''512k'' @ [CHR 0x09] @ ''10'' @ [CHR 0x09],
           ''failed (invalid literal for int() with base 10: '' @ [CHR 0x27] @ ''512k''
              @ [CHR 0x27] @ '')'' @ [CHR 0x0A],
           ''1M'' @ [CHR 0x09] @ ''10'' @ [CHR 0x09],
           ''5.5'' @ [CHR 0x0A]])"
proof -
  let ?argv = "[''--part-size'', ''512k'', ''1M'', ''--connections-per-vip'', ''10'', ''--'', ''bench'']"
  let ?args = "\<lparr>arg_part_size = Some [''512k'', ''1M''], arg_connections_per_vip = Some [10]\<rparr>"
  let ?rt = "scripted (table_parser [(?argv, ?args, [''--'', ''bench''])])"
  have h: "parse_known_args ?rt ?argv = Inr (?args, ''--'' # [''bench''])"
    by (simp add: scripted_simps table_parser_hit)
  have t: "trials ?rt [''bench''] (List.product [''512k'', ''1M''] [10])
             ([Inr ''x 5.5MiB/s''], [] @ [header_line])
       = ([], [header_line,
           ''512k'' @ [CHR 0x09] @ ''10'' @ [CHR 0x09],
           ''failed (invalid literal for int() with base 10: '' @ [CHR 0x27] @ ''512k''
              @ [CHR 0x27] @ '')'' @ [CHR 0x0A],
           ''1M'' @ [CHR 0x09] @ ''10'' @ [CHR 0x09],
           ''5.5'' @ [CHR 0x0A]])"
    by (simp add: trial_cases e1 e3 run_once_scripted f2 rv2 v2 scripted_simps
        row_prefix_def failed_line_def s1 int_error_512k del: findall.simps)
  show ?thesis
    using h t e3
      malformed_token_reported [of "''512k''" "int_error ''512k''" ?rt "[''bench'']" 10
        "[Inr ''x 5.5MiB/s'']" "[]" ?argv ?args "[''bench'']" "[''512k'', ''1M'']" "[10]"
        "[Inr ''x 5.5MiB/s'']" "[]"]
    by simp
qed

text \<open>
  A malformed token does not end the process: the run below ends normally, with the
  failure in the row of the trial.
\<close>

theorem malformed_token_not_fatal:
  "expand_size ''abc''
     = Inl (Exn ValueError
         (''invalid literal for int() with base 10: '' @ [CHR 0x27] @ ''abc'' @ [CHR 0x27]))
   \<and> main
        (scripted (table_parser
           [([''--part-size'', ''abc'', ''--connections-per-vip'', ''1'', ''--'', ''bench''],
             \<lparr>arg_part_size = Some [''abc''], arg_connections_per_vip = Some [1]\<rparr>,
             [''--'', ''bench''])]))
        [''--part-size'', ''abc'', ''--connections-per-vip'', ''1'', ''--'', ''bench'']
        ([], [])
       = (Finished, [],
          [header_line,
           ''abc'' @ [CHR 0x09] @ ''1'' @ [CHR 0x09],
           ''failed (invalid literal for int() with base 10: '' @ [CHR 0x27] @ ''abc''
              @ [CHR 0x27] @ '')'' @ [CHR 0x0A]])"
proof -
  have a: "expand_size ''abc''
     = Inl (Exn ValueError
         (''invalid literal for int() with base 10: '' @ [CHR 0x27] @ ''abc'' @ [CHR 0x27]))"
    using int_error_abc by (simp add: e2 int_error_def)
  show ?thesis
    using a
    by (simp add: main_def scripted_simps table_parser_hit run_sweep_trials trial_cases
        row_prefix_def failed_line_def s2)
qed

lemma outer_loop_None:
  "outer_loop rt cmd None ps st = (if ps = [] then (Inr (), st) else (Inl not_iterable, st))"
  by (cases ps) simp_all

lemma run_sweep_raises_iff:
  "(\<exists>e. fst (run_sweep rt args cmd st) = Inl e) \<longleftrightarrow>
     arg_part_size args = None
     \<or> (arg_part_size args \<noteq> Some [] \<and> arg_connections_per_vip args = None)"
proof (cases "arg_part_size args")
  case None
  then show ?thesis by (cases st) (simp add: run_sweep_def)
next
  case (Some ps)
  show ?thesis
  proof (cases "arg_connections_per_vip args")
    case None
    with Some show ?thesis
      by (cases st) (simp add: run_sweep_def outer_loop_None Let_def)
  next
    case (Some cs)
    with \<open>arg_part_size args = Some ps\<close> show ?thesis
      by (cases st) (simp add: run_sweep_trials)
  qed
qed

text \<open>
  C5, as amended. The process ends with an unhandled exception exactly when the parser
  returned and either the remaining arguments are empty or do not start with the
  separator, or \<open>--part-size\<close> was not given, or \<open>--connections-per-vip\<close> was not given
  while there is a part size to iterate over: an option that was not given is \<open>None\<close>, and
  iterating over it raises a \<open>TypeError\<close> that nothing handles. With both options given and
  the separator present the process ends normally.
\<close>

theorem main_unhandled_iff:
  "((\<exists>e. fst (main rt argv st) = Unhandled e) \<longleftrightarrow>
      (\<exists>args cmd. parse_known_args rt argv = Inr (args, cmd)
         \<and> (cmd = [] \<or> hd cmd \<noteq> ''--'' \<or> arg_part_size args = None
             \<or> (arg_part_size args \<noteq> Some [] \<and> arg_connections_per_vip args = None))))
   \<and> (parse_known_args rt argv = Inr (args', ''--'' # cmd')
        \<and> arg_part_size args' = Some ps \<and> arg_connections_per_vip args' = Some cs
      \<longrightarrow> fst (main rt argv st) = Finished)"
proof -
  have a: "(\<exists>e. fst (main rt argv st) = Unhandled e) \<longleftrightarrow>
      (\<exists>args cmd. parse_known_args rt argv = Inr (args, cmd)
         \<and> (cmd = [] \<or> hd cmd \<noteq> ''--'' \<or> arg_part_size args = None
             \<or> (arg_part_size args \<noteq> Some [] \<and> arg_connections_per_vip args = None)))"
  proof (cases "parse_known_args rt argv")
    case (Inl status)
    then show ?thesis by (simp add: main_def)
  next
    case (Inr r)
    obtain args cmd where r: "r = (args, cmd)" by (cases r)
    show ?thesis
    proof (cases cmd)
      case Nil
      with Inr r show ?thesis by (simp add: main_def)
    next
      case (Cons c rest)
      show ?thesis
      proof (cases "c = ''--''")
        case False
        with Inr r Cons show ?thesis by (simp add: main_def)
      next
        case True
        have "(\<exists>e. fst (main rt argv st) = Unhandled e)
                \<longleftrightarrow> (\<exists>e. fst (run_sweep rt args rest st) = Inl e)"
          using Inr r Cons True
          by (auto simp: main_def split: prod.splits sum.splits)
        then show ?thesis
          using Inr r Cons True by (simp add: run_sweep_raises_iff)
      qed
    qed
  qed
  have b: "fst (main rt argv st) = Finished"
    if "parse_known_args rt argv = Inr (args', ''--'' # cmd')"
      and "arg_part_size args' = Some ps" and "arg_connections_per_vip args' = Some cs"
    using that by (cases st) (simp add: main_sweep run_sweep_trials)
  from a b show ?thesis by blast
qed

theorem main_unhandled_iff_witness:
  "parse_known_args
        (scripted (table_parser
           [([''--part-size'', ''1M'', ''--connections-per-vip'', ''10'', ''--'', ''bench''],
             \<lparr>arg_part_size = Some [''1M''], arg_connections_per_vip = Some [10]\<rparr>,
             [''--'', ''bench''])]))
        [''--part-size'', ''1M'', ''--connections-per-vip'', ''10'', ''--'', ''bench'']
       = Inr (\<lparr>arg_part_size = Some [''1M''], arg_connections_per_vip = Some [10]\<rparr>,
              ''--'' # [''bench''])
   \<and> fst (main
        (scripted (table_parser
           [([''--part-size'', ''1M'', ''--connections-per-vip'', ''10'', ''--'', ''bench''],
             \<lparr>arg_part_size = Some [''1M''], arg_connections_per_vip = Some [10]\<rparr>,
             [''--'', ''bench''])]))
        [''--part-size'', ''1M'', ''--connections-per-vip'', ''10'', ''--'', ''bench'']
        ([Inr ''100MiB/s''], [])) = Finished"
proof -
  let ?argv = "[''--part-size'', ''1M'', ''--connections-per-vip'', ''10'', ''--'', ''bench'']"
  let ?args = "\<lparr>arg_part_size = Some [''1M''], arg_connections_per_vip = Some [10]\<rparr>"
  let ?rt = "scripted (table_parser [(?argv, ?args, [''--'', ''bench''])])"
  have h: "parse_known_args ?rt ?argv = Inr (?args, ''--'' # [''bench''])"
    by (simp add: scripted_simps table_parser_hit)
  show ?thesis
    using h main_unhandled_iff [of ?rt ?argv "([Inr ''100MiB/s''], [])" ?args "[''bench'']"
        "[''1M'']" "[10]"]
    by simp
qed

text \<open>
  The separator is present and the process still ends with an unhandled exception, after
  the header line: \<open>--part-size\<close> was left out.
\<close>

theorem missing_option_unhandled:
  "parse_known_args
        (scripted (table_parser
           [([''--connections-per-vip'', ''10'', ''--'', ''bench''],
             \<lparr>arg_part_size = None, arg_connections_per_vip = Some [10]\<rparr>,
             [''--'', ''bench''])]))
        [''--connections-per-vip'', ''10'', ''--'', ''bench'']
       = Inr (\<lparr>arg_part_size = None, arg_connections_per_vip = Some [10]\<rparr>,
              [''--'', ''bench''])
   \<and> main
        (scripted (table_parser
           [([''--connections-per-vip'', ''10'', ''--'', ''bench''],
             \<lparr>arg_part_size = None, arg_connections_per_vip = Some [10]\<rparr>,
             [''--'', ''bench''])]))
        [''--connections-per-vip'', ''10'', ''--'', ''bench'']
        ([Inr ''x 5.5MiB/s''], [])
       = (Unhandled (Exn TypeError
            ([CHR 0x27] @ ''NoneType'' @ [CHR 0x27] @ '' object is not iterable'')),
          [Inr ''x 5.5MiB/s''], [header_line])"
  by (simp add: main_def scripted_simps table_parser_hit run_sweep_def not_iterable_def)

section \<open>The command template is not shared\<close>

lemma run_once_ref_run_once:
  assumes "cmd < length h"
  shows "run_once_ref rt cmd n c (h, w) =
     (case run_once rt (h ! cmd) n c w of
        (r, w') \<Rightarrow> (r, h @ [h ! cmd @ [''--part-size'', str_int n,
                                          ''--connections-per-vip'', str_int c]], w'))"
  by (simp add: run_once_ref_def run_once_def list_concat_def Let_def
      split: prod.splits sum.splits)

text \<open>
  C8. \<open>run_once\<close> leaves every list object of the caller as it was, the command template
  among them: the command it runs is a new object, the template followed by the two pairs
  of that trial. A second trial on the same reference therefore starts from the same
  template, and its command carries its own two pairs only. On the template's contents
  \<open>run_once\<close> with a reference does what \<open>run_once\<close> on the list does.
\<close>

theorem run_once_template_unchanged:
  assumes "cmd < length h"
    and "run_once_ref rt cmd n c (h, w) = (r, h', w')"
    and "run_once_ref rt cmd n2 c2 (h', w') = (r2, h'', w'')"
  shows "h' ! cmd = h ! cmd \<and> h'' ! cmd = h ! cmd
       \<and> (\<forall>a < length h. h' ! a = h ! a \<and> h'' ! a = h ! a)
       \<and> h' = h @ [h ! cmd @ [''--part-size'', str_int n, ''--connections-per-vip'', str_int c]]
       \<and> h'' = h' @ [h ! cmd @ [''--part-size'', str_int n2,
                                  ''--connections-per-vip'', str_int c2]]
       \<and> (r, w') = run_once rt (h ! cmd) n c w
       \<and> (r2, w'') = run_once rt (h ! cmd) n2 c2 w'"
proof -
  from assms(1,2) have 1: "h' = h @ [h ! cmd @ [''--part-size'', str_int n,
        ''--connections-per-vip'', str_int c]]" and r: "(r, w') = run_once rt (h ! cmd) n c w"
    by (auto simp: run_once_ref_run_once split: prod.splits)
  from 1 assms(1) have c: "cmd < length h'" and k: "h' ! cmd = h ! cmd"
    by (simp_all add: nth_append)
  from assms(3) c k have 2: "h'' = h' @ [h ! cmd @ [''--part-size'', str_int n2,
        ''--connections-per-vip'', str_int c2]]"
    and r2: "(r2, w'') = run_once rt (h ! cmd) n2 c2 w'"
    by (auto simp: run_once_ref_run_once split: prod.splits)
  have "\<forall>a < length h. h' ! a = h ! a \<and> h'' ! a = h ! a"
    by (simp add: 1 2 nth_append)
  with assms(1) 1 2 r r2 show ?thesis by simp
qed

theorem run_once_template_unchanged_witness:
  "(0::nat) < length [[''bench'', ''--region'', ''x'']]
   \<and> run_once_ref (scripted no_parser) 0 524288 10
        ([[''bench'', ''--region'', ''x'']], [Inr ''x 5.5MiB/s'', Inr ''100MiB/s''])
      = (Inr 5500,
         [[''bench'', ''--region'', ''x''],
          [''bench'', ''--region'', ''x'', ''--part-size'', ''524288'',
           ''--connections-per-vip'', ''10'']],
         [Inr ''100MiB/s''])
   \<and> run_once_ref (scripted no_parser) 0 1048576 20
        ([[''bench'', ''--region'', ''x''],
          [''bench'', ''--region'', ''x'', ''--part-size'', ''524288'',
           ''--connections-per-vip'', ''10'']], [Inr ''100MiB/s''])
      = (Inl (Exn Exception ''No throughput found''),
         [[''bench'', ''--region'', ''x''],
          [''bench'', ''--region'', ''x'', ''--part-size'', ''524288'',
           ''--connections-per-vip'', ''10''],
          [''bench'', ''--region'', ''x'', ''--part-size'', ''1048576'',
           ''--connections-per-vip'', ''20'']],
         [])"
proof -
  let ?h = "[[''bench'', ''--region'', ''x'']]"
  let ?rt = "scripted no_parser :: (int, (exn + string) list) runtime"
  have l: "(0::nat) < length ?h" by simp
  have a: "run_once_ref ?rt 0 524288 10 (?h, [Inr ''x 5.5MiB/s'', Inr ''100MiB/s''])
      = (Inr 5500, ?h @ [?h ! 0 @ [''--part-size'', str_int 524288,
            ''--connections-per-vip'', str_int 10]], [Inr ''100MiB/s''])"
    by (simp add: run_once_ref_run_once run_once_scripted f2 rv2 del: findall.simps)
  have b: "run_once_ref ?rt 0 1048576 20
        (?h @ [?h ! 0 @ [''--part-size'', str_int 524288,
            ''--connections-per-vip'', str_int 10]], [Inr ''100MiB/s''])
      = (Inl (Exn Exception ''No throughput found''),
         (?h @ [?h ! 0 @ [''--part-size'', str_int 524288,
            ''--connections-per-vip'', str_int 10]])
           @ [?h ! 0 @ [''--part-size'', str_int 1048576,
            ''--connections-per-vip'', str_int 20]], [])"
    by (simp add: run_once_ref_run_once run_once_scripted f2 del: findall.simps)
  show ?thesis
    using l a b run_once_template_unchanged [OF l a b]
    by (simp add: s1 s2)
qed

section \<open>Integer literals\<close>


















end
